theory Spec2Isabelle
  imports Main
begin

section \<open>The copy-to-clipboard script \<^verbatim>\<open>static/js/copy.js\<close>\<close>

text \<open>
  The script wires a click listener to every \<^verbatim>\<open>.js-copy-btn\<close> element. One click
  resolves the text to copy from the button's \<^verbatim>\<open>dataset\<close>, hands it to \<^verbatim>\<open>copyText\<close>
  and then calls \<^verbatim>\<open>showCopiedToast\<close>, all inside one \<^verbatim>\<open>try\<close>/\<^verbatim>\<open>catch\<close>.

  The embedding is of one click on one button, and threads the page through every call.
  A JavaScript call either returns a value or throws; a throw keeps the changes made to
  the page before it. The single \<^verbatim>\<open>await\<close> of the script is sequential composition:
  a rejected promise is a throw at the \<^verbatim>\<open>await\<close>. Interleaving of two click handlers
  is not modelled.
\<close>

subsection \<open>Values, errors and completions\<close>

datatype js_error = JsError string string

datatype 'a completion = Normal 'a | Throw js_error

text \<open>
  A \<^verbatim>\<open>dataset\<close> entry is \<^verbatim>\<open>undefined\<close> (\<open>None\<close>) when the attribute is absent and a
  string otherwise. A string is truthy exactly when it is not empty.
\<close>

fun truthy :: "string option \<Rightarrow> bool" where
  "truthy None = False"
| "truthy (Some s) = (s \<noteq> [])"

text \<open>The expression \<^verbatim>\<open>a || d\<close> for a dataset entry \<open>a\<close> and a string \<open>d\<close>.\<close>

fun js_or :: "string option \<Rightarrow> string \<Rightarrow> string" where
  "js_or None d = d"
| "js_or (Some s) d = (if s \<noteq> [] then s else d)"

subsection \<open>The page and the host environment\<close>

text \<open>
  DOM nodes are numbered in creation order. The events are the calls the script makes
  on the platform and on the toast toolkit, in the order it makes them; a call is recorded
  when it is made, whether it returns or throws.
\<close>

datatype event =
    WriteText string
  | CreateElement string nat
  | SetValue nat string
  | AppendChild nat
  | Select nat
  | ExecCommand string
  | RemoveChild nat
  | GetOrCreateInstance nat nat
  | ToastShow nat

record page =
  node_count :: nat
  body_children :: "nat list"
  input_value :: "nat \<rightharpoonup> string"
  selected :: "nat option"
  element_ids :: "string \<rightharpoonup> nat"
  events :: "event list"
  console :: "(string \<times> js_error) list"

text \<open>
  \<^verbatim>\<open>navigator.clipboard\<close> is \<open>None\<close> when undefined; its \<^verbatim>\<open>writeText\<close> member is
  \<open>None\<close> when undefined, and otherwise tells for each text whether the promise resolves
  (\<open>None\<close>) or rejects with an error.
\<close>

record clipboard =
  writeText :: "(string \<Rightarrow> js_error option) option"

text \<open>
  The toast component: \<^verbatim>\<open>Toast.getOrCreateInstance(element, {delay})\<close> returns the
  instance of the element or throws, \<^verbatim>\<open>show()\<close> on the instance of an element returns or
  throws.
\<close>

record toolkit =
  toast_getOrCreateInstance :: "nat \<Rightarrow> nat \<Rightarrow> js_error option"
  toast_show :: "nat \<Rightarrow> js_error option"

text \<open>
  The global \<^verbatim>\<open>bootstrap\<close> is \<open>None\<close> in the environment when it is undefined. A
  defined global has the component \<^verbatim>\<open>Toast\<close> or has not (\<^verbatim>\<open>null\<close>, an empty object,
  a bundle built without the component).
\<close>

record bootstrap_global =
  bootstrap_Toast :: "toolkit option"

record env =
  navigator_clipboard :: "clipboard option"
  location_href :: string
  exec_command :: "string \<Rightarrow> bool completion"
  bootstrap :: "bootstrap_global option"

text \<open>The \<^verbatim>\<open>dataset\<close> of a trigger element: \<^verbatim>\<open>data-copy-text\<close> and \<^verbatim>\<open>data-copy-url\<close>.\<close>

record button =
  dataset_copyText :: "string option"
  dataset_copyUrl :: "string option"

subsection \<open>Platform calls\<close>

definition record_event :: "event \<Rightarrow> page \<Rightarrow> page" where
  "record_event e p = p\<lparr>events := events p @ [e]\<rparr>"

definition createElement :: "string \<Rightarrow> page \<Rightarrow> nat \<times> page" where
  "createElement tag p =
     (node_count p,
      record_event (CreateElement tag (node_count p)) (p\<lparr>node_count := Suc (node_count p)\<rparr>))"

text \<open>
  The element created is a text input: assigning to its \<^verbatim>\<open>value\<close> stores the string
  with every line feed and carriage return stripped. The event keeps the string assigned.
\<close>

definition strip_newlines :: "string \<Rightarrow> string" where
  "strip_newlines v = filter (\<lambda>c. c \<noteq> CHR 0x0A \<and> c \<noteq> CHR 0x0D) v"

definition set_value :: "nat \<Rightarrow> string \<Rightarrow> page \<Rightarrow> page" where
  "set_value n v p =
     record_event (SetValue n v) (p\<lparr>input_value := (input_value p)(n \<mapsto> strip_newlines v)\<rparr>)"

text \<open>\<^verbatim>\<open>document.body.appendChild\<close> moves a node that is already a child to the end.\<close>

definition appendChild :: "nat \<Rightarrow> page \<Rightarrow> page" where
  "appendChild n p =
     record_event (AppendChild n) (p\<lparr>body_children := removeAll n (body_children p) @ [n]\<rparr>)"

definition select :: "nat \<Rightarrow> page \<Rightarrow> page" where
  "select n p = record_event (Select n) (p\<lparr>selected := Some n\<rparr>)"

definition execCommand :: "env \<Rightarrow> string \<Rightarrow> page \<Rightarrow> bool completion \<times> page" where
  "execCommand e cmd p = (exec_command e cmd, record_event (ExecCommand cmd) p)"

text \<open>\<^verbatim>\<open>document.body.removeChild\<close> throws when the node is not a child of the body.\<close>

definition removeChild :: "nat \<Rightarrow> page \<Rightarrow> unit completion \<times> page" where
  "removeChild n p =
     (if n \<in> set (body_children p)
      then (Normal (),
            record_event (RemoveChild n) (p\<lparr>body_children := removeAll n (body_children p)\<rparr>))
      else (Throw (JsError ''NotFoundError'' ''The node to be removed is not a child of this node''),
            record_event (RemoveChild n) p))"

definition getElementById :: "string \<Rightarrow> page \<Rightarrow> nat option" where
  "getElementById i p = element_ids p i"

definition console_error :: "string \<Rightarrow> js_error \<Rightarrow> page \<Rightarrow> page" where
  "console_error prefix err p = p\<lparr>console := console p @ [(prefix, err)]\<rparr>"

text \<open>The condition \<^verbatim>\<open>navigator.clipboard && navigator.clipboard.writeText\<close>.\<close>

definition clipboard_writeText :: "env \<Rightarrow> (string \<Rightarrow> js_error option) option" where
  "clipboard_writeText e =
     (case navigator_clipboard e of None \<Rightarrow> None | Some c \<Rightarrow> writeText c)"

definition getOrCreateInstance :: "toolkit \<Rightarrow> nat \<Rightarrow> nat \<Rightarrow> page \<Rightarrow> nat completion \<times> page" where
  "getOrCreateInstance bs el delay p =
     (case toast_getOrCreateInstance bs el delay of
        None \<Rightarrow> (Normal el, record_event (GetOrCreateInstance el delay) p)
      | Some err \<Rightarrow> (Throw err, record_event (GetOrCreateInstance el delay) p))"

definition show_toast :: "toolkit \<Rightarrow> nat \<Rightarrow> page \<Rightarrow> unit completion \<times> page" where
  "show_toast bs toast p =
     (case toast_show bs toast of
        None \<Rightarrow> (Normal (), record_event (ToastShow toast) p)
      | Some err \<Rightarrow> (Throw err, record_event (ToastShow toast) p))"

subsection \<open>The script\<close>

text \<open>
  \<^verbatim>\<open>showCopiedToast\<close>, lines 2 to 9. The guard of line 4 tests only whether the global
  \<^verbatim>\<open>bootstrap\<close> is undefined; on a defined global without the component, evaluating
  \<^verbatim>\<open>bootstrap.Toast.getOrCreateInstance\<close> in line 7 throws a \<^verbatim>\<open>TypeError\<close> before any
  call on the toolkit.
\<close>

definition showCopiedToast :: "env \<Rightarrow> page \<Rightarrow> unit completion \<times> page" where
  "showCopiedToast e p =
     (case getElementById ''copyToast'' p of
        None \<Rightarrow> (Normal (), p)
      | Some toastEl \<Rightarrow>
          (case bootstrap e of
             None \<Rightarrow> (Normal (), p)
           | Some bs \<Rightarrow>
               (case bootstrap_Toast bs of
                  None \<Rightarrow> (Throw (JsError ''TypeError'' ''bootstrap.Toast is undefined''), p)
                | Some toast_class \<Rightarrow>
                    (case getOrCreateInstance toast_class toastEl 1500 p of
                       (Throw err, p1) \<Rightarrow> (Throw err, p1)
                     | (Normal toast, p1) \<Rightarrow> show_toast toast_class toast p1))))"

text \<open>\<^verbatim>\<open>copyText\<close>, lines 11 to 22.\<close>

definition copyText :: "env \<Rightarrow> string \<Rightarrow> page \<Rightarrow> unit completion \<times> page" where
  "copyText e v p =
     (case clipboard_writeText e of
        Some w \<Rightarrow>
          (case w v of
             None \<Rightarrow> (Normal (), record_event (WriteText v) p)
           | Some err \<Rightarrow> (Throw err, record_event (WriteText v) p))
      | None \<Rightarrow>
          (let (tempInput, p1) = createElement ''input'' p;
               p2 = set_value tempInput v p1;
               p3 = appendChild tempInput p2;
               p4 = select tempInput p3
           in case execCommand e ''copy'' p4 of
                (Throw err, p5) \<Rightarrow> (Throw err, p5)
              | (Normal ok, p5) \<Rightarrow> removeChild tempInput p5))"

text \<open>The request resolution of the click handler, lines 29 to 32.\<close>

definition resolve_text :: "env \<Rightarrow> button \<Rightarrow> string" where
  "resolve_text e b =
     (let textToCopy = js_or (dataset_copyText b) []
      in if truthy (dataset_copyUrl b) then location_href e else textToCopy)"

text \<open>The \<^verbatim>\<open>try\<close> block of the click handler, lines 29 to 37.\<close>

definition click_try :: "env \<Rightarrow> button \<Rightarrow> page \<Rightarrow> unit completion \<times> page" where
  "click_try e b p =
     (let textToCopy = resolve_text e b
      in if textToCopy = [] then (Normal (), p)
         else (case copyText e textToCopy p of
                 (Throw err, p1) \<Rightarrow> (Throw err, p1)
               | (Normal u, p1) \<Rightarrow> showCopiedToast e p1))"

text \<open>The click handler, lines 27 to 41: the \<^verbatim>\<open>try\<close> block and its \<^verbatim>\<open>catch\<close>.\<close>

definition click_handler :: "env \<Rightarrow> button \<Rightarrow> page \<Rightarrow> unit completion \<times> page" where
  "click_handler e b p =
     (case click_try e b p of
        (Throw err, p1) \<Rightarrow> (Normal (), console_error ''Copy failed:'' err p1)
      | (Normal u, p1) \<Rightarrow> (Normal u, p1))"

subsection \<open>Reading the events of one call\<close>

text \<open>The events a call added to the page it started from.\<close>

definition events_since :: "page \<Rightarrow> page \<Rightarrow> event list" where
  "events_since p p' = drop (length (events p)) (events p')"

definition activation_events :: "env \<Rightarrow> button \<Rightarrow> page \<Rightarrow> event list" where
  "activation_events e b p = events_since p (snd (click_handler e b p))"

text \<open>
  The texts handed to the clipboard machinery: the argument of \<^verbatim>\<open>writeText\<close> on the
  primary path, the value given to an input element on the legacy path.
\<close>

fun submitted :: "event list \<Rightarrow> string list" where
  "submitted [] = []"
| "submitted (WriteText t # es) = t # submitted es"
| "submitted (SetValue n t # es) = t # submitted es"
| "submitted (ev # es) = submitted es"

text \<open>The nodes created, and the calls on the toast toolkit.\<close>

fun created :: "event list \<Rightarrow> nat list" where
  "created [] = []"
| "created (CreateElement tag n # es) = n # created es"
| "created (ev # es) = created es"

fun toast_calls :: "event list \<Rightarrow> event list" where
  "toast_calls [] = []"
| "toast_calls (GetOrCreateInstance el d # es) = GetOrCreateInstance el d # toast_calls es"
| "toast_calls (ToastShow t # es) = ToastShow t # toast_calls es"
| "toast_calls (ev # es) = toast_calls es"

text \<open>
  The write path a call took, read from its first clipboard event: \<^verbatim>\<open>writeText\<close> for the
  primary path, the creation of the temporary input for the legacy one.
\<close>

datatype write_path = Primary | Fallback

fun path_taken :: "event list \<Rightarrow> write_path option" where
  "path_taken [] = None"
| "path_taken (WriteText t # es) = Some Primary"
| "path_taken (CreateElement tag n # es) = Some Fallback"
| "path_taken (ev # es) = path_taken es"

subsection \<open>Example pages, environments and buttons\<close>

definition always_resolves :: "string \<Rightarrow> js_error option" where
  "always_resolves t = None"

definition always_rejects :: "string \<Rightarrow> js_error option" where
  "always_rejects t = Some (JsError ''NotAllowedError'' ''Write permission denied.'')"

definition exec_reports :: "bool \<Rightarrow> string \<Rightarrow> bool completion" where
  "exec_reports ok cmd = Normal ok"

definition exec_throws :: "string \<Rightarrow> bool completion" where
  "exec_throws cmd = Throw (JsError ''SecurityError'' ''The operation is insecure.'')"

definition instance_ok :: "nat \<Rightarrow> nat \<Rightarrow> js_error option" where
  "instance_ok el delay = None"

definition show_ok :: "nat \<Rightarrow> js_error option" where
  "show_ok toast = None"

definition show_fails :: "nat \<Rightarrow> js_error option" where
  "show_fails toast = Some (JsError ''TypeError'' ''toast.show is not a function'')"

definition toolkit_ok :: toolkit where
  "toolkit_ok = \<lparr>toast_getOrCreateInstance = instance_ok, toast_show = show_ok\<rparr>"

definition toolkit_broken :: toolkit where
  "toolkit_broken = \<lparr>toast_getOrCreateInstance = instance_ok, toast_show = show_fails\<rparr>"

text \<open>A page whose only element is the toast element, node 0.\<close>

definition toast_page :: page where
  "toast_page =
     \<lparr>node_count = 1, body_children = [0], input_value = Map.empty, selected = None,
      element_ids = [''copyToast'' \<mapsto> 0], events = [], console = []\<rparr>"

definition bare_page :: page where
  "bare_page =
     \<lparr>node_count = 0, body_children = [], input_value = Map.empty, selected = None,
      element_ids = Map.empty, events = [], console = []\<rparr>"

definition modern_env :: env where
  "modern_env =
     \<lparr>navigator_clipboard = Some \<lparr>writeText = Some always_resolves\<rparr>,
      location_href = ''https://example.org/case/42'',
      exec_command = exec_reports True, bootstrap = Some \<lparr>bootstrap_Toast = Some toolkit_ok\<rparr>\<rparr>"

definition denied_env :: env where
  "denied_env =
     \<lparr>navigator_clipboard = Some \<lparr>writeText = Some always_rejects\<rparr>,
      location_href = ''https://example.org/case/42'',
      exec_command = exec_reports True, bootstrap = Some \<lparr>bootstrap_Toast = Some toolkit_ok\<rparr>\<rparr>"

definition legacy_env :: env where
  "legacy_env =
     \<lparr>navigator_clipboard = None,
      location_href = ''https://example.org/case/42'',
      exec_command = exec_reports False, bootstrap = None\<rparr>"

definition throwing_env :: env where
  "throwing_env =
     \<lparr>navigator_clipboard = Some \<lparr>writeText = None\<rparr>,
      location_href = ''https://example.org/case/42'',
      exec_command = exec_throws, bootstrap = Some \<lparr>bootstrap_Toast = Some toolkit_ok\<rparr>\<rparr>"

definition broken_toast_env :: env where
  "broken_toast_env =
     \<lparr>navigator_clipboard = Some \<lparr>writeText = Some always_resolves\<rparr>,
      location_href = ''https://example.org/case/42'',
      exec_command = exec_reports True, bootstrap = Some \<lparr>bootstrap_Toast = Some toolkit_broken\<rparr>\<rparr>"

definition toastless_env :: env where
  "toastless_env =
     \<lparr>navigator_clipboard = Some \<lparr>writeText = Some always_resolves\<rparr>,
      location_href = ''https://example.org/case/42'',
      exec_command = exec_reports True, bootstrap = Some \<lparr>bootstrap_Toast = None\<rparr>\<rparr>"

definition blank_env :: env where
  "blank_env =
     \<lparr>navigator_clipboard = Some \<lparr>writeText = Some always_resolves\<rparr>,
      location_href = [],
      exec_command = exec_reports True, bootstrap = Some \<lparr>bootstrap_Toast = Some toolkit_ok\<rparr>\<rparr>"

definition two_lines :: string where
  "two_lines = [CHR ''a'', CHR 0x0A, CHR ''b'']"

definition text_button :: button where
  "text_button = \<lparr>dataset_copyText = Some ''ABC123'', dataset_copyUrl = None\<rparr>"

definition url_button :: button where
  "url_button = \<lparr>dataset_copyText = None, dataset_copyUrl = Some ''true''\<rparr>"

definition both_button :: button where
  "both_button = \<lparr>dataset_copyText = Some ''ABC123'', dataset_copyUrl = Some ''true''\<rparr>"

definition empty_flag_button :: button where
  "empty_flag_button = \<lparr>dataset_copyText = Some ''ABC123'', dataset_copyUrl = Some []\<rparr>"

definition plain_button :: button where
  "plain_button = \<lparr>dataset_copyText = None, dataset_copyUrl = None\<rparr>"

section \<open>Properties\<close>

subsection \<open>Auxiliary facts\<close>

lemmas platform_defs = record_event_def createElement_def set_value_def appendChild_def
  select_def execCommand_def removeChild_def getElementById_def console_error_def
  getOrCreateInstance_def show_toast_def

lemmas example_defs = always_resolves_def always_rejects_def exec_reports_def exec_throws_def
  instance_ok_def show_ok_def show_fails_def toolkit_ok_def toolkit_broken_def toast_page_def
  bare_page_def modern_env_def denied_env_def legacy_env_def throwing_env_def
  broken_toast_env_def toastless_env_def blank_env_def text_button_def url_button_def both_button_def
  empty_flag_button_def plain_button_def

lemma submitted_append: "submitted (xs @ ys) = submitted xs @ submitted ys"
  by (induction xs rule: submitted.induct) simp_all

lemma toast_calls_append: "toast_calls (xs @ ys) = toast_calls xs @ toast_calls ys"
  by (induction xs rule: toast_calls.induct) simp_all

lemma path_taken_append:
  "path_taken (xs @ ys) = (case path_taken xs of None \<Rightarrow> path_taken ys | Some w \<Rightarrow> Some w)"
  by (induction xs rule: path_taken.induct) simp_all

lemma copyText_primary:
  "clipboard_writeText e = Some w \<Longrightarrow>
   copyText e v p =
     ((case w v of None \<Rightarrow> Normal () | Some err \<Rightarrow> Throw err), record_event (WriteText v) p)"
  by (simp add: copyText_def split: option.splits)

lemma copyText_fallback_returns:
  "clipboard_writeText e = None \<Longrightarrow> exec_command e ''copy'' = Normal ok \<Longrightarrow>
   copyText e v p =
     (Normal (),
      p\<lparr>node_count := Suc (node_count p),
        input_value := (input_value p)(node_count p \<mapsto> strip_newlines v),
        body_children := removeAll (node_count p) (body_children p),
        selected := Some (node_count p),
        events := events p @
          [CreateElement ''input'' (node_count p), SetValue (node_count p) v,
           AppendChild (node_count p), Select (node_count p), ExecCommand ''copy'',
           RemoveChild (node_count p)]\<rparr>)"
  by (simp add: copyText_def platform_defs)

text \<open>
  A copy command that throws ends \<^verbatim>\<open>copyText\<close> before \<^verbatim>\<open>removeChild\<close>: the error
  goes to the caller and the input element stays in the body.
\<close>

lemma copyText_fallback_throws:
  "clipboard_writeText e = None \<Longrightarrow> exec_command e ''copy'' = Throw err \<Longrightarrow>
   copyText e v p =
     (Throw err,
      p\<lparr>node_count := Suc (node_count p),
        input_value := (input_value p)(node_count p \<mapsto> strip_newlines v),
        body_children := removeAll (node_count p) (body_children p) @ [node_count p],
        selected := Some (node_count p),
        events := events p @
          [CreateElement ''input'' (node_count p), SetValue (node_count p) v,
           AppendChild (node_count p), Select (node_count p), ExecCommand ''copy'']\<rparr>)"
  by (simp add: copyText_def platform_defs)

lemma copyText_events:
  "\<exists>ws. events (snd (copyText e v p)) = events p @ ws \<and> submitted ws = [v] \<and>
        toast_calls ws = [] \<and>
        path_taken ws = Some (if clipboard_writeText e = None then Fallback else Primary)"
proof (cases "clipboard_writeText e")
  case None
  show ?thesis
  proof (cases "exec_command e ''copy''")
    case (Normal ok)
    show ?thesis by (simp add: copyText_fallback_returns [OF None Normal] None)
  next
    case (Throw err)
    show ?thesis by (simp add: copyText_fallback_throws [OF None Throw] None)
  qed
next
  case (Some w)
  show ?thesis by (simp add: copyText_primary [OF Some] Some record_event_def)
qed

lemma copyText_console: "console (snd (copyText e v p)) = console p"
proof (cases "clipboard_writeText e")
  case None
  show ?thesis
  proof (cases "exec_command e ''copy''")
    case (Normal ok)
    show ?thesis by (simp add: copyText_fallback_returns [OF None Normal])
  next
    case (Throw err)
    show ?thesis by (simp add: copyText_fallback_throws [OF None Throw])
  qed
next
  case (Some w)
  show ?thesis by (simp add: copyText_primary [OF Some] record_event_def)
qed

lemma showCopiedToast_events:
  "\<exists>ts. events (snd (showCopiedToast e p)) = events p @ ts \<and> submitted ts = [] \<and>
        path_taken ts = None"
  by (simp add: showCopiedToast_def platform_defs split: option.splits completion.splits)

lemma showCopiedToast_console: "console (snd (showCopiedToast e p)) = console p"
  by (simp add: showCopiedToast_def platform_defs split: option.splits completion.splits)

lemma click_try_empty: "resolve_text e b = [] \<Longrightarrow> click_try e b p = (Normal (), p)"
  by (simp add: click_try_def)

lemma click_try_write:
  "resolve_text e b \<noteq> [] \<Longrightarrow>
   click_try e b p =
     (case copyText e (resolve_text e b) p of
        (Throw err, p1) \<Rightarrow> (Throw err, p1)
      | (Normal u, p1) \<Rightarrow> showCopiedToast e p1)"
  by (simp add: click_try_def)

lemma click_try_console: "console (snd (click_try e b p)) = console p"
proof (cases "resolve_text e b = []")
  case True
  then show ?thesis by (simp add: click_try_empty)
next
  case False
  obtain r p1 where c: "copyText e (resolve_text e b) p = (r, p1)"
    by (cases "copyText e (resolve_text e b) p")
  have "console p1 = console p"
    using copyText_console [of e "resolve_text e b" p] c by simp
  then show ?thesis
    using showCopiedToast_console [of e p1]
    by (cases r) (simp_all add: click_try_write [OF False] c)
qed

lemma click_handler_events: "events (snd (click_handler e b p)) = events (snd (click_try e b p))"
  by (cases "click_try e b p" rule: prod.exhaust [case_names Pair])
     (auto simp: click_handler_def console_error_def split: completion.splits)

lemma click_try_submitted:
  "resolve_text e b \<noteq> [] \<Longrightarrow>
   \<exists>es. events (snd (click_try e b p)) = events p @ es \<and> submitted es = [resolve_text e b] \<and>
        path_taken es = Some (if clipboard_writeText e = None then Fallback else Primary)"
proof -
  assume ne: "resolve_text e b \<noteq> []"
  obtain r p1 where c: "copyText e (resolve_text e b) p = (r, p1)"
    by (cases "copyText e (resolve_text e b) p")
  obtain ws where ws: "events p1 = events p @ ws" "submitted ws = [resolve_text e b]"
      "path_taken ws = Some (if clipboard_writeText e = None then Fallback else Primary)"
    using copyText_events [of e "resolve_text e b" p] c by auto
  show ?thesis
  proof (cases r)
    case (Throw err)
    then show ?thesis using ws by (simp add: click_try_write [OF ne] c)
  next
    case (Normal u)
    obtain ts where ts: "events (snd (showCopiedToast e p1)) = events p1 @ ts"
        "submitted ts = []" "path_taken ts = None"
      using showCopiedToast_events [of e p1] by auto
    have "events (snd (click_try e b p)) = events p @ (ws @ ts)"
      using ts ws Normal by (simp add: click_try_write [OF ne] c)
    moreover have "submitted (ws @ ts) = [resolve_text e b]"
      using ws ts by (simp add: submitted_append)
    moreover have "path_taken (ws @ ts) =
        Some (if clipboard_writeText e = None then Fallback else Primary)"
      using ws ts by (simp add: path_taken_append)
    ultimately show ?thesis by blast
  qed
qed

lemma activation_submitted:
  "resolve_text e b \<noteq> [] \<Longrightarrow> submitted (activation_events e b p) = [resolve_text e b]"
  using click_try_submitted [of e b p]
  by (auto simp: activation_events_def click_handler_events events_since_def)

lemma activation_path:
  "resolve_text e b \<noteq> [] \<Longrightarrow>
   path_taken (activation_events e b p) =
     Some (if clipboard_writeText e = None then Fallback else Primary)"
  using click_try_submitted [of e b p]
  by (auto simp: activation_events_def click_handler_events events_since_def)

lemma activation_empty:
  "resolve_text e b = [] \<Longrightarrow> click_handler e b p = (Normal (), p) \<and> activation_events e b p = []"
  by (simp add: activation_events_def click_handler_def click_try_empty events_since_def)

lemma resolve_text_flag: "truthy (dataset_copyUrl b) \<Longrightarrow> resolve_text e b = location_href e"
  by (simp add: resolve_text_def)

lemma showCopiedToast_without_Toast:
  "getElementById ''copyToast'' p = Some t \<Longrightarrow> bootstrap e = Some g \<Longrightarrow>
   bootstrap_Toast g = None \<Longrightarrow>
   showCopiedToast e p = (Throw (JsError ''TypeError'' ''bootstrap.Toast is undefined''), p)"
  by (simp add: showCopiedToast_def)

lemma showCopiedToast_calls:
  "getElementById ''copyToast'' p = Some t \<Longrightarrow> bootstrap e = Some g \<Longrightarrow>
   bootstrap_Toast g = Some bs \<Longrightarrow>
   events (snd (showCopiedToast e p)) = events p @
     GetOrCreateInstance t 1500 #
       (case toast_getOrCreateInstance bs t 1500 of None \<Rightarrow> [ToastShow t] | Some err \<Rightarrow> [])"
  by (simp add: showCopiedToast_def getOrCreateInstance_def show_toast_def record_event_def
      split: option.splits)

subsection \<open>C1: the URL flag\<close>

text \<open>
  The handler tests the value of \<^verbatim>\<open>dataset.copyUrl\<close>, not its presence: a flag that is
  present with the empty string as its value is falsy, so C1 fails as stated. On a
  button with such a flag and the literal text \<^verbatim>\<open>ABC123\<close> the literal text is
  submitted, not the address of the page.
\<close>

theorem empty_url_flag_counterexample:
  "dataset_copyUrl empty_flag_button \<noteq> None \<and>
   submitted (activation_events modern_env empty_flag_button toast_page) = [''ABC123''] \<and>
   submitted (activation_events modern_env empty_flag_button toast_page) \<noteq>
     [location_href modern_env]"
proof -
  have r: "resolve_text modern_env empty_flag_button = ''ABC123''"
    by (simp add: resolve_text_def empty_flag_button_def)
  have "submitted (activation_events modern_env empty_flag_button toast_page) = [''ABC123'']"
    using activation_submitted [of modern_env empty_flag_button toast_page] r by simp
  then show ?thesis by (simp add: empty_flag_button_def modern_env_def)
qed

text \<open>
  C1, as amended. For every trigger element whose URL flag is present with a non-empty
  value, the request resolves to the full address of the current page whatever the
  literal-text attribute holds, and an activation submits exactly that address to the
  clipboard-write path when the address is not empty.
\<close>

theorem nonempty_url_flag_submits_address:
  assumes "dataset_copyUrl b = Some flag" and "flag \<noteq> []"
  shows "resolve_text e b = location_href e \<and>
         (location_href e \<noteq> [] \<longrightarrow> submitted (activation_events e b p) = [location_href e])"
  using assms activation_submitted [of e b p] by (simp add: resolve_text_flag)

theorem nonempty_url_flag_submits_address_witness:
  "dataset_copyUrl both_button = Some ''true'' \<and> dataset_copyText both_button = Some ''ABC123'' \<and>
   location_href modern_env = ''https://example.org/case/42'' \<and>
   resolve_text modern_env both_button = ''https://example.org/case/42'' \<and>
   submitted (activation_events modern_env both_button toast_page) =
     [''https://example.org/case/42'']"
  using nonempty_url_flag_submits_address [of both_button "''true''" modern_env toast_page]
  by (simp add: both_button_def modern_env_def)

subsection \<open>C2: failure containment\<close>

text \<open>
  C2. The click handler returns normally on every activation. When a step of the
  \<^verbatim>\<open>try\<close> block throws an error, the handler records exactly one console entry, made
  of the prefix \<^verbatim>\<open>Copy failed:\<close> and that error, and changes nothing else; when no step
  throws, it records none.
\<close>

theorem handler_catches_every_error:
  "fst (click_handler e b p) = Normal () \<and>
   (\<forall>err. fst (click_try e b p) = Throw err \<longrightarrow>
      console (snd (click_handler e b p)) = console p @ [(''Copy failed:'', err)] \<and>
      events (snd (click_handler e b p)) = events (snd (click_try e b p))) \<and>
   (fst (click_try e b p) = Normal () \<longrightarrow> click_handler e b p = click_try e b p)"
proof -
  obtain r p1 where t: "click_try e b p = (r, p1)"
    by (cases "click_try e b p")
  have "console p1 = console p"
    using click_try_console [of e b p] t by simp
  then show ?thesis
    by (cases r) (simp_all add: click_handler_def t console_error_def)
qed

theorem handler_catches_every_error_witness:
  "fst (click_try throwing_env text_button toast_page) =
     Throw (JsError ''SecurityError'' ''The operation is insecure.'') \<and>
   fst (click_handler throwing_env text_button toast_page) = Normal () \<and>
   console (snd (click_handler throwing_env text_button toast_page)) =
     [(''Copy failed:'', JsError ''SecurityError'' ''The operation is insecure.'')] \<and>
   fst (click_try broken_toast_env text_button toast_page) =
     Throw (JsError ''TypeError'' ''toast.show is not a function'') \<and>
   console (snd (click_handler broken_toast_env text_button toast_page)) =
     [(''Copy failed:'', JsError ''TypeError'' ''toast.show is not a function'')] \<and>
   fst (click_try modern_env text_button toast_page) = Normal () \<and>
   console (snd (click_handler modern_env text_button toast_page)) = []"
proof -
  have a: "fst (click_try throwing_env text_button toast_page) =
      Throw (JsError ''SecurityError'' ''The operation is insecure.'')"
    by (simp add: click_try_def resolve_text_def copyText_def clipboard_writeText_def
        platform_defs example_defs Let_def)
  have b: "fst (click_try broken_toast_env text_button toast_page) =
      Throw (JsError ''TypeError'' ''toast.show is not a function'')"
    by (simp add: click_try_def resolve_text_def copyText_def clipboard_writeText_def
        showCopiedToast_def platform_defs example_defs)
  have c: "fst (click_try modern_env text_button toast_page) = Normal ()"
    by (simp add: click_try_def resolve_text_def copyText_def clipboard_writeText_def
        showCopiedToast_def platform_defs example_defs)
  have p: "console toast_page = []"
    by (simp add: toast_page_def)
  show ?thesis
    using handler_catches_every_error [of throwing_env text_button toast_page]
      handler_catches_every_error [of broken_toast_env text_button toast_page]
      handler_catches_every_error [of modern_env text_button toast_page]
      click_try_console [of modern_env text_button toast_page] a b c p
    by simp
qed

subsection \<open>C3: the legacy fallback\<close>

text \<open>
  C3 fails as stated in two places. \<^verbatim>\<open>copyText\<close> has no \<^verbatim>\<open>finally\<close>: when the copy
  command throws, \<^verbatim>\<open>removeChild\<close> is not reached, the handler catches the error and
  completes, and the input element is still a child of the body. And the text input
  does not hold exactly the request text: a line feed in it is stripped.
\<close>

theorem fallback_keeps_input_counterexample:
  "clipboard_writeText throwing_env = None \<and>
   fst (copyText throwing_env ''ABC123'' toast_page) =
     Throw (JsError ''SecurityError'' ''The operation is insecure.'') \<and>
   fst (click_handler throwing_env text_button toast_page) = Normal () \<and>
   activation_events throwing_env text_button toast_page =
     [CreateElement ''input'' 1, SetValue 1 ''ABC123'', AppendChild 1, Select 1,
      ExecCommand ''copy''] \<and>
   body_children (snd (click_handler throwing_env text_button toast_page)) = [0, 1] \<and>
   clipboard_writeText legacy_env = None \<and>
   input_value (snd (copyText legacy_env two_lines toast_page)) 1 = Some ''ab'' \<and>
   two_lines \<noteq> ''ab''"
proof -
  have n: "clipboard_writeText throwing_env = None"
    by (simp add: clipboard_writeText_def throwing_env_def)
  have x: "exec_command throwing_env ''copy'' =
      Throw (JsError ''SecurityError'' ''The operation is insecure.'')"
    by (simp add: throwing_env_def exec_throws_def)
  have r: "resolve_text throwing_env text_button = ''ABC123''"
    by (simp add: resolve_text_def text_button_def)
  have t: "click_try throwing_env text_button toast_page =
      copyText throwing_env ''ABC123'' toast_page"
    by (simp add: click_try_def r copyText_fallback_throws [OF n x] Let_def)
  have f: "fst (copyText throwing_env ''ABC123'' toast_page) =
      Throw (JsError ''SecurityError'' ''The operation is insecure.'')"
    by (simp add: copyText_fallback_throws [OF n x])
  have ev: "events (snd (copyText throwing_env ''ABC123'' toast_page)) =
      [CreateElement ''input'' 1, SetValue 1 ''ABC123'', AppendChild 1, Select 1,
       ExecCommand ''copy'']"
    by (simp add: copyText_fallback_throws [OF n x] toast_page_def)
  have bc: "body_children (snd (copyText throwing_env ''ABC123'' toast_page)) = [0, 1]"
    by (simp add: copyText_fallback_throws [OF n x] toast_page_def)
  have h: "click_handler throwing_env text_button toast_page =
      (Normal (),
       console_error ''Copy failed:'' (JsError ''SecurityError'' ''The operation is insecure.'')
         (snd (copyText throwing_env ''ABC123'' toast_page)))"
    by (simp add: click_handler_def t copyText_fallback_throws [OF n x])
  have ev0: "events toast_page = []"
    by (simp add: toast_page_def)
  have hf: "fst (click_handler throwing_env text_button toast_page) = Normal ()"
    by (simp add: h)
  have ha: "activation_events throwing_env text_button toast_page =
      [CreateElement ''input'' 1, SetValue 1 ''ABC123'', AppendChild 1, Select 1,
       ExecCommand ''copy'']"
    by (simp add: activation_events_def events_since_def h console_error_def ev ev0)
  have hb: "body_children (snd (click_handler throwing_env text_button toast_page)) = [0, 1]"
    by (simp add: h console_error_def bc)
  have l: "clipboard_writeText legacy_env = None"
    by (simp add: clipboard_writeText_def legacy_env_def)
  have y: "exec_command legacy_env ''copy'' = Normal False"
    by (simp add: legacy_env_def exec_reports_def)
  have v: "input_value (snd (copyText legacy_env two_lines toast_page)) 1 = Some ''ab''"
    by (simp add: copyText_fallback_returns [OF l y] toast_page_def two_lines_def
        strip_newlines_def)
  have w: "two_lines \<noteq> ''ab''"
    by (simp add: two_lines_def)
  show ?thesis
    by (intro conjI n f hf ha hb l v w)
qed

text \<open>
  C3, as amended. When the primary clipboard capability is unavailable, \<^verbatim>\<open>copyText\<close>
  creates exactly one input element, assigns the request text to its value (the input
  then holds that text with line feeds and carriage returns stripped), appends it to the
  body, selects it and invokes the copy command. Whenever the copy command returns,
  whether it reports success or failure, \<^verbatim>\<open>copyText\<close> then removes the element from
  the body and returns normally.
\<close>

theorem fallback_removes_input_when_command_returns:
  assumes "clipboard_writeText e = None"
  shows "created (events_since p (snd (copyText e v p))) = [node_count p] \<and>
         take 5 (events_since p (snd (copyText e v p))) =
           [CreateElement ''input'' (node_count p), SetValue (node_count p) v,
            AppendChild (node_count p), Select (node_count p), ExecCommand ''copy''] \<and>
         node_count (snd (copyText e v p)) = Suc (node_count p) \<and>
         input_value (snd (copyText e v p)) (node_count p) = Some (strip_newlines v) \<and>
         (\<forall>ok. exec_command e ''copy'' = Normal ok \<longrightarrow>
            fst (copyText e v p) = Normal () \<and>
            events_since p (snd (copyText e v p)) =
              [CreateElement ''input'' (node_count p), SetValue (node_count p) v,
               AppendChild (node_count p), Select (node_count p), ExecCommand ''copy'',
               RemoveChild (node_count p)] \<and>
            node_count p \<notin> set (body_children (snd (copyText e v p))) \<and>
            body_children (snd (copyText e v p)) = removeAll (node_count p) (body_children p))"
proof (cases "exec_command e ''copy''")
  case (Normal ok)
  show ?thesis
    by (simp add: copyText_fallback_returns [OF assms Normal] events_since_def Normal)
next
  case (Throw err)
  show ?thesis
    by (simp add: copyText_fallback_throws [OF assms Throw] events_since_def Throw)
qed

theorem fallback_removes_input_when_command_returns_witness:
  "clipboard_writeText legacy_env = None \<and> exec_command legacy_env ''copy'' = Normal False \<and>
   fst (copyText legacy_env ''ABC123'' toast_page) = Normal () \<and>
   created (events_since toast_page (snd (copyText legacy_env ''ABC123'' toast_page))) = [1] \<and>
   events_since toast_page (snd (copyText legacy_env ''ABC123'' toast_page)) =
     [CreateElement ''input'' 1, SetValue 1 ''ABC123'', AppendChild 1, Select 1,
      ExecCommand ''copy'', RemoveChild 1] \<and>
   node_count (snd (copyText legacy_env ''ABC123'' toast_page)) = 2 \<and>
   input_value (snd (copyText legacy_env ''ABC123'' toast_page)) 1 = Some ''ABC123'' \<and>
   body_children (snd (copyText legacy_env ''ABC123'' toast_page)) = [0]"
proof -
  have l: "clipboard_writeText legacy_env = None"
    by (simp add: clipboard_writeText_def legacy_env_def)
  have y: "exec_command legacy_env ''copy'' = Normal False"
    by (simp add: legacy_env_def exec_reports_def)
  have c: "node_count toast_page = 1"
    by (simp add: toast_page_def)
  have b: "body_children toast_page = [0]"
    by (simp add: toast_page_def)
  note d = fallback_removes_input_when_command_returns [OF l, of toast_page "''ABC123''"]
  from d have always:
    "created (events_since toast_page (snd (copyText legacy_env ''ABC123'' toast_page))) = [1]"
    "node_count (snd (copyText legacy_env ''ABC123'' toast_page)) = 2"
    "input_value (snd (copyText legacy_env ''ABC123'' toast_page)) 1 = Some ''ABC123''"
    by (simp_all add: c strip_newlines_def)
  from d have "exec_command legacy_env ''copy'' = Normal False \<longrightarrow>
      fst (copyText legacy_env ''ABC123'' toast_page) = Normal () \<and>
      events_since toast_page (snd (copyText legacy_env ''ABC123'' toast_page)) =
        [CreateElement ''input'' 1, SetValue 1 ''ABC123'', AppendChild 1, Select 1,
         ExecCommand ''copy'', RemoveChild 1] \<and>
      1 \<notin> set (body_children (snd (copyText legacy_env ''ABC123'' toast_page))) \<and>
      body_children (snd (copyText legacy_env ''ABC123'' toast_page)) = removeAll 1 [0]"
    unfolding c b by blast
  with y have returned:
    "fst (copyText legacy_env ''ABC123'' toast_page) = Normal ()"
    "events_since toast_page (snd (copyText legacy_env ''ABC123'' toast_page)) =
       [CreateElement ''input'' 1, SetValue 1 ''ABC123'', AppendChild 1, Select 1,
        ExecCommand ''copy'', RemoveChild 1]"
    "body_children (snd (copyText legacy_env ''ABC123'' toast_page)) = [0]"
    by simp_all
  show ?thesis
    by (intro conjI l y always returned)
qed

subsection \<open>C4: the literal text\<close>

text \<open>
  C4. For every trigger element with a non-empty literal-text attribute and no URL flag,
  an activation submits exactly that string, and nothing else, to the clipboard-write path.
\<close>

theorem literal_text_is_submitted:
  assumes "dataset_copyText b = Some t" and "t \<noteq> []" and "dataset_copyUrl b = None"
  shows "resolve_text e b = t \<and> submitted (activation_events e b p) = [t]"
proof -
  have "resolve_text e b = t"
    using assms by (simp add: resolve_text_def)
  then show ?thesis
    using assms(2) activation_submitted [of e b p] by simp
qed

theorem literal_text_is_submitted_witness:
  "dataset_copyText text_button = Some ''ABC123'' \<and> dataset_copyUrl text_button = None \<and>
   resolve_text legacy_env text_button = ''ABC123'' \<and>
   submitted (activation_events legacy_env text_button bare_page) = [''ABC123'']"
  using literal_text_is_submitted [of text_button "''ABC123''" legacy_env bare_page]
  by (simp add: text_button_def)

subsection \<open>C5: no attribute, no effect\<close>

text \<open>
  C5. For a trigger element with neither a literal-text attribute nor the URL flag, an
  activation returns normally and leaves the page as it was: no clipboard write, no
  acknowledgment, no console entry.
\<close>

theorem no_attributes_no_effect:
  assumes "dataset_copyText b = None" and "dataset_copyUrl b = None"
  shows "click_handler e b p = (Normal (), p) \<and> activation_events e b p = []"
proof -
  have "resolve_text e b = []"
    using assms by (simp add: resolve_text_def)
  then show ?thesis by (rule activation_empty)
qed

theorem no_attributes_no_effect_witness:
  "dataset_copyText plain_button = None \<and> dataset_copyUrl plain_button = None \<and>
   click_handler modern_env plain_button toast_page = (Normal (), toast_page) \<and>
   activation_events modern_env plain_button toast_page = []"
  using no_attributes_no_effect [of plain_button modern_env toast_page]
  by (simp add: plain_button_def)

subsection \<open>C6: the primary path\<close>

text \<open>
  C6. When the primary clipboard capability is available and its write succeeds,
  \<^verbatim>\<open>copyText\<close> calls \<^verbatim>\<open>writeText\<close> with the text and does nothing else: no element is
  created and the body is unchanged.
\<close>

theorem primary_success_skips_fallback:
  assumes "clipboard_writeText e = Some w" and "w v = None"
  shows "copyText e v p = (Normal (), p\<lparr>events := events p @ [WriteText v]\<rparr>) \<and>
         created (events_since p (snd (copyText e v p))) = [] \<and>
         node_count (snd (copyText e v p)) = node_count p \<and>
         body_children (snd (copyText e v p)) = body_children p"
  using assms by (simp add: copyText_primary [OF assms(1)] record_event_def events_since_def)

theorem primary_success_skips_fallback_witness:
  "clipboard_writeText modern_env = Some always_resolves \<and> always_resolves ''ABC123'' = None \<and>
   copyText modern_env ''ABC123'' toast_page =
     (Normal (), toast_page\<lparr>events := events toast_page @ [WriteText ''ABC123'']\<rparr>) \<and>
   created (events_since toast_page (snd (copyText modern_env ''ABC123'' toast_page))) = [] \<and>
   node_count (snd (copyText modern_env ''ABC123'' toast_page)) = 1"
  using primary_success_skips_fallback [of modern_env always_resolves "''ABC123''" toast_page]
  by (simp add: clipboard_writeText_def modern_env_def always_resolves_def toast_page_def
      events_since_def)

subsection \<open>C7: a throwing clipboard write\<close>

text \<open>
  C7. For every activation in which the clipboard-write step throws, no call on the toast
  toolkit is made, exactly one console entry is recorded, with the error thrown, and the
  handler returns normally.
\<close>

theorem write_throw_skips_toast:
  assumes "resolve_text e b \<noteq> []" and "fst (copyText e (resolve_text e b) p) = Throw err"
  shows "toast_calls (activation_events e b p) = [] \<and>
         console (snd (click_handler e b p)) = console p @ [(''Copy failed:'', err)] \<and>
         fst (click_handler e b p) = Normal ()"
proof -
  obtain p1 where c: "copyText e (resolve_text e b) p = (Throw err, p1)"
    using assms(2) by (cases "copyText e (resolve_text e b) p") simp
  have t: "click_try e b p = (Throw err, p1)"
    by (simp add: click_try_write [OF assms(1)] c)
  obtain ws where ws: "events p1 = events p @ ws" "toast_calls ws = []"
    using copyText_events [of e "resolve_text e b" p] c by auto
  have "console p1 = console p"
    using copyText_console [of e "resolve_text e b" p] c by simp
  then show ?thesis
    using ws by (simp add: activation_events_def click_handler_def t console_error_def
        events_since_def)
qed

theorem write_throw_skips_toast_witness:
  "resolve_text denied_env text_button = ''ABC123'' \<and>
   fst (copyText denied_env ''ABC123'' toast_page) =
     Throw (JsError ''NotAllowedError'' ''Write permission denied.'') \<and>
   toast_calls (activation_events denied_env text_button toast_page) = [] \<and>
   console (snd (click_handler denied_env text_button toast_page)) =
     [(''Copy failed:'', JsError ''NotAllowedError'' ''Write permission denied.'')] \<and>
   fst (click_handler denied_env text_button toast_page) = Normal ()"
proof -
  have r: "resolve_text denied_env text_button = ''ABC123''"
    by (simp add: resolve_text_def text_button_def)
  have c: "fst (copyText denied_env ''ABC123'' toast_page) =
      Throw (JsError ''NotAllowedError'' ''Write permission denied.'')"
    by (simp add: copyText_def clipboard_writeText_def denied_env_def always_rejects_def)
  show ?thesis
    using write_throw_skips_toast [of denied_env text_button toast_page
        "JsError ''NotAllowedError'' ''Write permission denied.''"] r c
    by (simp add: toast_page_def)
qed

subsection \<open>C8: the acknowledgment\<close>

text \<open>
  C8 fails as stated. The guard tests only whether the global \<^verbatim>\<open>bootstrap\<close> is
  undefined. With the element present and a defined global that lacks the component
  \<^verbatim>\<open>Toast\<close>, the toolkit is unavailable and yet the step is not a no-op: it throws a
  \<^verbatim>\<open>TypeError\<close>, before any call on the toolkit.
\<close>

theorem toast_without_component_counterexample:
  "getElementById ''copyToast'' toast_page = Some 0 \<and>
   bootstrap toastless_env = Some \<lparr>bootstrap_Toast = None\<rparr> \<and>
   showCopiedToast toastless_env toast_page =
     (Throw (JsError ''TypeError'' ''bootstrap.Toast is undefined''), toast_page) \<and>
   fst (showCopiedToast toastless_env toast_page) \<noteq> Normal ()"
proof -
  have a: "getElementById ''copyToast'' toast_page = Some 0"
    by (simp add: getElementById_def toast_page_def)
  have b: "bootstrap toastless_env = Some \<lparr>bootstrap_Toast = None\<rparr>"
    by (simp add: toastless_env_def)
  show ?thesis
    using a b by (simp add: showCopiedToast_without_Toast [OF a b])
qed

text \<open>
  C8, as amended. \<^verbatim>\<open>showCopiedToast\<close> returns normally and leaves the page unchanged
  when the element \<^verbatim>\<open>copyToast\<close> does not exist or the global \<^verbatim>\<open>bootstrap\<close> is
  undefined. When the element exists and the global is defined and has the component
  \<^verbatim>\<open>Toast\<close>, it asks the component for the instance of that element with a delay of
  exactly 1500, and calls \<^verbatim>\<open>show\<close> on the instance the component returns.
\<close>

theorem toast_guard_and_delay:
  "(getElementById ''copyToast'' p = None \<or> bootstrap e = None \<longrightarrow>
      showCopiedToast e p = (Normal (), p)) \<and>
   (\<forall>t g bs. getElementById ''copyToast'' p = Some t \<and> bootstrap e = Some g \<and>
        bootstrap_Toast g = Some bs \<longrightarrow>
      events_since p (snd (showCopiedToast e p)) =
        GetOrCreateInstance t 1500 #
          (case toast_getOrCreateInstance bs t 1500 of
             None \<Rightarrow> [ToastShow t] | Some err \<Rightarrow> []))"
proof -
  have "showCopiedToast e p = (Normal (), p)"
    if "getElementById ''copyToast'' p = None \<or> bootstrap e = None"
    using that by (auto simp: showCopiedToast_def split: option.splits)
  moreover have "events_since p (snd (showCopiedToast e p)) =
        GetOrCreateInstance t 1500 #
          (case toast_getOrCreateInstance bs t 1500 of None \<Rightarrow> [ToastShow t] | Some err \<Rightarrow> [])"
    if "getElementById ''copyToast'' p = Some t" and "bootstrap e = Some g"
      and "bootstrap_Toast g = Some bs" for t g bs
    using showCopiedToast_calls [OF that] by (simp add: events_since_def)
  ultimately show ?thesis by blast
qed

theorem toast_guard_and_delay_witness:
  "getElementById ''copyToast'' bare_page = None \<and>
   showCopiedToast modern_env bare_page = (Normal (), bare_page) \<and>
   bootstrap legacy_env = None \<and>
   showCopiedToast legacy_env toast_page = (Normal (), toast_page) \<and>
   getElementById ''copyToast'' toast_page = Some 0 \<and>
   bootstrap modern_env = Some \<lparr>bootstrap_Toast = Some toolkit_ok\<rparr> \<and>
   events_since toast_page (snd (showCopiedToast modern_env toast_page)) =
     [GetOrCreateInstance 0 1500, ToastShow 0]"
  using toast_guard_and_delay [of bare_page modern_env]
    toast_guard_and_delay [of toast_page legacy_env]
    toast_guard_and_delay [of toast_page modern_env]
  by (simp add: getElementById_def bare_page_def toast_page_def legacy_env_def modern_env_def
      toolkit_ok_def instance_ok_def)

subsection \<open>C9: an empty address\<close>

text \<open>
  C9. When the URL flag selects the address of the page and that address is the empty
  string, the activation is abandoned silently, whatever the literal-text attribute holds:
  the literal text is not a fallback.
\<close>

theorem empty_address_abandons_activation:
  assumes "truthy (dataset_copyUrl b)" and "location_href e = []"
  shows "resolve_text e b = [] \<and> click_handler e b p = (Normal (), p) \<and>
         activation_events e b p = []"
proof -
  have r: "resolve_text e b = []"
    using assms by (simp add: resolve_text_flag)
  show ?thesis
    using r activation_empty [OF r, of p] by simp
qed

theorem empty_address_abandons_activation_witness:
  "dataset_copyText both_button = Some ''ABC123'' \<and> truthy (dataset_copyUrl both_button) \<and>
   location_href blank_env = [] \<and>
   click_handler blank_env both_button toast_page = (Normal (), toast_page) \<and>
   activation_events blank_env both_button toast_page = []"
  using empty_address_abandons_activation [of both_button blank_env toast_page]
  by (simp add: both_button_def blank_env_def)

subsection \<open>C10: determinism\<close>

text \<open>
  C10. Two activations with the same trigger attributes, the same availability of the
  primary clipboard capability and the same page address resolve the same request text,
  submit the same texts and take the same write path, whatever else differs between the
  two pages and environments.
\<close>

theorem resolution_and_path_deterministic:
  assumes "dataset_copyText b1 = dataset_copyText b2"
    and "dataset_copyUrl b1 = dataset_copyUrl b2"
    and "(clipboard_writeText e1 = None) = (clipboard_writeText e2 = None)"
    and "location_href e1 = location_href e2"
  shows "resolve_text e1 b1 = resolve_text e2 b2 \<and>
         submitted (activation_events e1 b1 p1) = submitted (activation_events e2 b2 p2) \<and>
         path_taken (activation_events e1 b1 p1) = path_taken (activation_events e2 b2 p2)"
proof -
  have r: "resolve_text e1 b1 = resolve_text e2 b2"
    using assms by (simp add: resolve_text_def)
  show ?thesis
  proof (cases "resolve_text e2 b2 = []")
    case True
    then show ?thesis
      using r activation_empty [of e1 b1 p1] activation_empty [of e2 b2 p2] by simp
  next
    case False
    then show ?thesis
      using r assms(3) activation_submitted [of e1 b1 p1] activation_submitted [of e2 b2 p2]
        activation_path [of e1 b1 p1] activation_path [of e2 b2 p2]
      by simp
  qed
qed

theorem resolution_and_path_deterministic_witness:
  "(clipboard_writeText modern_env = None) = (clipboard_writeText denied_env = None) \<and>
   location_href modern_env = location_href denied_env \<and>
   resolve_text denied_env url_button = ''https://example.org/case/42'' \<and>
   submitted (activation_events modern_env url_button toast_page) =
     [''https://example.org/case/42''] \<and>
   submitted (activation_events denied_env url_button bare_page) =
     [''https://example.org/case/42''] \<and>
   path_taken (activation_events modern_env url_button toast_page) = Some Primary \<and>
   path_taken (activation_events denied_env url_button bare_page) = Some Primary"
proof -
  have a: "(clipboard_writeText modern_env = None) = (clipboard_writeText denied_env = None)"
    by (simp add: clipboard_writeText_def modern_env_def denied_env_def)
  have h: "location_href modern_env = location_href denied_env"
    by (simp add: modern_env_def denied_env_def)
  have r: "resolve_text modern_env url_button = ''https://example.org/case/42''"
    by (simp add: resolve_text_def url_button_def modern_env_def)
  have w: "clipboard_writeText modern_env \<noteq> None"
    by (simp add: clipboard_writeText_def modern_env_def)
  have s: "submitted (activation_events modern_env url_button toast_page) =
      [''https://example.org/case/42'']"
    using activation_submitted [of modern_env url_button toast_page] r by simp
  have t: "path_taken (activation_events modern_env url_button toast_page) = Some Primary"
    using activation_path [of modern_env url_button toast_page] r w by simp
  note d = resolution_and_path_deterministic
      [of url_button url_button modern_env denied_env toast_page bare_page, OF refl refl a h]
  have r': "resolve_text denied_env url_button = ''https://example.org/case/42''"
    using d r by simp
  have s': "submitted (activation_events denied_env url_button bare_page) =
      [''https://example.org/case/42'']"
    using d s by simp
  have t': "path_taken (activation_events denied_env url_button bare_page) = Some Primary"
    using d t by simp
  show ?thesis
    by (intro conjI a h r' s s' t t')
qed

end
